theory Spec2Isabelle
  imports Complex_Main
begin

section \<open>Numbers\<close>

text \<open>
  The TypeScript type \<open>number\<close> is the IEEE 754 double. A value is either finite, and then
  a rational, or one of \<open>Infinity\<close>, \<open>-Infinity\<close> and \<open>NaN\<close>. Every arithmetic operation
  computes the exact result and rounds it to the nearest double, ties to the even
  significand. Negative zero is identified with zero, as \<open>===\<close> does.
\<close>

datatype number = Num rat | PosInfinity | NegInfinity | NaN

text \<open>The integer part of the binary logarithm of a positive integer.\<close>

function floor_log2 :: "int \<Rightarrow> int" where
  "floor_log2 n = (if n < 2 then 0 else 1 + floor_log2 (n div 2))"
  by pat_completeness auto
termination
  by (relation "measure nat") auto

text \<open>The binary exponent of a positive rational \<open>x\<close>: the \<open>e\<close> with \<open>2^e \<le> x < 2^(e+1)\<close>.\<close>

definition binary_exponent :: "rat \<Rightarrow> int" where
  "binary_exponent x =
     (if 1 \<le> x then floor_log2 \<lfloor>x\<rfloor>
      else - (1 + floor_log2 (\<lceil>1 / x\<rceil> - 1)))"

definition scale2 :: "int \<Rightarrow> rat \<Rightarrow> rat" where
  "scale2 k x = (if 0 \<le> k then x * 2 ^ nat k else x / 2 ^ nat (- k))"

definition round_half_even :: "rat \<Rightarrow> int" where
  "round_half_even y =
     (let f = \<lfloor>y\<rfloor>; d = y - of_int f
      in if d < 1 / 2 then f else if 1 / 2 < d then f + 1 else if even f then f else f + 1)"

text \<open>
  Rounding to a double: the significand has 53 bits, so the spacing of the doubles around
  \<open>x\<close> is \<open>2^(e - 52)\<close>, with the exponent \<open>e\<close> kept between -1022 (below, the subnormal
  numbers share the spacing \<open>2^-1074\<close>) and 1023; a result that reaches \<open>2^1024\<close> overflows.
\<close>

definition round_to_double :: "rat \<Rightarrow> number" where
  "round_to_double x =
     (if x = 0 then Num 0
      else
        (let k = max (- 1022) (min 1023 (binary_exponent \<bar>x\<bar>)) - 52;
             r = scale2 k (of_int (round_half_even (scale2 (- k) x)))
         in if 2 ^ 1024 \<le> \<bar>r\<bar> then (if 0 < x then PosInfinity else NegInfinity) else Num r))"

text \<open>A rational is representable when it is a double: rounding leaves it as it is.\<close>

definition representable :: "rat \<Rightarrow> bool" where
  "representable x = (round_to_double x = Num x)"

text \<open>The operators \<open>+\<close>, unary \<open>-\<close>, binary \<open>-\<close> and \<open>*\<close> on numbers.\<close>

fun js_add :: "number \<Rightarrow> number \<Rightarrow> number" where
  "js_add (Num a) (Num b) = round_to_double (a + b)"
| "js_add NaN y = NaN"
| "js_add x NaN = NaN"
| "js_add PosInfinity NegInfinity = NaN"
| "js_add NegInfinity PosInfinity = NaN"
| "js_add PosInfinity y = PosInfinity"
| "js_add x PosInfinity = PosInfinity"
| "js_add NegInfinity y = NegInfinity"
| "js_add x NegInfinity = NegInfinity"

fun js_neg :: "number \<Rightarrow> number" where
  "js_neg (Num a) = Num (- a)"
| "js_neg PosInfinity = NegInfinity"
| "js_neg NegInfinity = PosInfinity"
| "js_neg NaN = NaN"

definition js_sub :: "number \<Rightarrow> number \<Rightarrow> number" where
  "js_sub x y = js_add x (js_neg y)"

fun js_mul :: "number \<Rightarrow> number \<Rightarrow> number" where
  "js_mul (Num a) (Num b) = round_to_double (a * b)"
| "js_mul NaN y = NaN"
| "js_mul x NaN = NaN"
| "js_mul (Num a) y =
     (if a = 0 then NaN else if (0 < a) = (y = PosInfinity) then PosInfinity else NegInfinity)"
| "js_mul x (Num b) =
     (if b = 0 then NaN else if (0 < b) = (x = PosInfinity) then PosInfinity else NegInfinity)"
| "js_mul x y = (if x = y then PosInfinity else NegInfinity)"

text \<open>The console is the list of the lines written so far, oldest first.\<close>

type_synonym console = "string list"


section \<open>Command: inventory actions with a log\<close>

subsection \<open>Inventory\<close>

record Inventory =
  currentStock :: number
  productName :: string
  price :: number

text \<open>\<open>constructor(productName, price)\<close>: the stock is set to the literal 0.\<close>

definition Inventory_new :: "string \<Rightarrow> number \<Rightarrow> Inventory" where
  "Inventory_new name p = \<lparr>currentStock = Num 0, productName = name, price = p\<rparr>"

definition addInventory :: "number \<Rightarrow> Inventory \<Rightarrow> Inventory" where
  "addInventory quantity this = this\<lparr>currentStock := js_add (currentStock this) quantity\<rparr>"

definition removeInventory :: "number \<Rightarrow> Inventory \<Rightarrow> Inventory" where
  "removeInventory quantity this = this\<lparr>currentStock := js_sub (currentStock this) quantity\<rparr>"

subsection \<open>Actions on shared inventories\<close>

text \<open>
  An action keeps a reference to its inventory, and several actions may share one
  inventory. The inventories therefore live in a store, indexed by reference; every
  reference of the program denotes an \<open>Inventory\<close> object, so the store is total.
\<close>

type_synonym ref = nat
type_synonym store = "ref \<Rightarrow> Inventory"

datatype InventoryAction =
  AddInventory ref number
| RemoveInventory ref number

fun execute :: "InventoryAction \<Rightarrow> store \<Rightarrow> store" where
  "execute (AddInventory r q) s = s(r := addInventory q (s r))"
| "execute (RemoveInventory r q) s = s(r := removeInventory q (s r))"

fun undo :: "InventoryAction \<Rightarrow> store \<Rightarrow> store" where
  "undo (AddInventory r q) s = s(r := removeInventory q (s r))"
| "undo (RemoveInventory r q) s = s(r := addInventory q (s r))"

subsection \<open>Logging\<close>

text \<open>The state of the program: the inventories and the \<open>operations\<close> array of the logger.\<close>

record world =
  inventories :: store
  operations :: "InventoryAction list"

text \<open>\<open>Array.prototype.pop\<close>: the last element (\<open>undefined\<close> on an empty array) and the rest.\<close>

fun pop :: "'a list \<Rightarrow> 'a option \<times> 'a list" where
  "pop [] = (None, [])"
| "pop (x # xs) = (Some (last (x # xs)), butlast (x # xs))"

definition executeWithLogging :: "InventoryAction \<Rightarrow> world \<Rightarrow> world" where
  "executeWithLogging action w =
     (let w1 = w\<lparr>inventories := execute action (inventories w)\<rparr>
      in w1\<lparr>operations := operations w1 @ [action]\<rparr>)"

text \<open>An action is an object, hence truthy: \<open>if (action)\<close> fails on \<open>undefined\<close> only.\<close>

definition undoWithLogging :: "world \<Rightarrow> world" where
  "undoWithLogging w =
     (case pop (operations w) of
        (None, ops) \<Rightarrow> w\<lparr>operations := ops\<rparr>
      | (Some action, ops) \<Rightarrow>
          (let w1 = w\<lparr>operations := ops\<rparr>
           in w1\<lparr>inventories := undo action (inventories w1)\<rparr>))"

text \<open>Running a script of calls, in order.\<close>

fun executeAll :: "InventoryAction list \<Rightarrow> world \<Rightarrow> world" where
  "executeAll [] w = w"
| "executeAll (a # as) w = executeAll as (executeWithLogging a w)"

fun undoTimes :: "nat \<Rightarrow> world \<Rightarrow> world" where
  "undoTimes 0 w = w"
| "undoTimes (Suc k) w = undoTimes k (undoWithLogging w)"


text \<open>A store in which every inventory holds one item, and one where it holds 0.1.\<close>

definition stock1 :: store where
  "stock1 = (\<lambda>r. \<lparr>currentStock = Num 1, productName = ''ABC'', price = Num 12\<rparr>)"

definition stock_tenth :: store where
  "stock_tenth =
     (\<lambda>r. \<lparr>currentStock = round_to_double (1 / 10), productName = ''ABC'', price = Num 12\<rparr>)"

text \<open>A store in which every inventory holds 12 items, and an empty log.\<close>

definition stock12 :: world where
  "stock12 =
     \<lparr>inventories = (\<lambda>r. \<lparr>currentStock = Num 12, productName = ''ABC'', price = Num 12\<rparr>),
      operations = []\<rparr>"


section \<open>Composite: files and folders\<close>

subsection \<open>Trees of items\<close>

text \<open>
  A \<open>Files\<close> object has a name and a size, a \<open>Folder\<close> a name and the array \<open>childs\<close>, in
  insertion order. All fields are \<open>readonly\<close>; only \<open>addItem\<close> changes an object (it pushes
  onto \<open>childs\<close>). A folder whose objects are reached along one path only is the tree below;
  the store model of \<open>addItem\<close>, where sharing matters, follows further down.
\<close>

datatype FileSystemItem =
  Files string number
| Folder string "FileSystemItem list"

text \<open>
  \<open>console.log\<close> with one argument writes it as it is. With a string as first argument
  and a second argument it formats, as \<open>util.format\<close> of Node does: the first argument is
  scanned for the directives \<open>%s\<close>, \<open>%d\<close>, \<open>%i\<close>, \<open>%f\<close>, \<open>%j\<close>, \<open>%o\<close>, \<open>%O\<close> and \<open>%c\<close>, the
  first of which is replaced by the second argument in the form the directive gives it,
  and for \<open>%%\<close>, which is replaced by one percent sign; a second argument that no
  directive has used follows the text after a space.
\<close>

definition console_log :: "string \<Rightarrow> console \<Rightarrow> console" where
  "console_log a out = out @ [a]"

text \<open>
  Two arguments, the first a literal of the program without any percent sign: nothing
  is formatted.
\<close>

definition console_log2 :: "string \<Rightarrow> string \<Rightarrow> console \<Rightarrow> console" where
  "console_log2 a b out = out @ [a @ '' '' @ b]"

text \<open>What a directive makes of the second argument \<open>"/"\<close>.\<close>

definition directive_slash :: "char \<Rightarrow> string option" where
  "directive_slash d =
     (if d = CHR ''s'' then Some ''/''
      else if d = CHR ''j'' then Some [CHR 0x22, CHR ''/'', CHR 0x22]
      else if d = CHR ''d'' \<or> d = CHR ''i'' \<or> d = CHR ''f'' then Some ''NaN''
      else if d = CHR ''o'' \<or> d = CHR ''O'' then Some [CHR 0x27, CHR ''/'', CHR 0x27]
      else if d = CHR ''c'' then Some []
      else None)"

text \<open>
  The scan of the first argument: the text written for it, and whether a directive has
  used the second argument. A percent sign is looked at together with the character
  after it, and the scan goes on behind that character; so the last character of the
  argument never starts a directive. Once the second argument is used, only \<open>%%\<close> is
  still replaced.
\<close>

fun format_scan :: "bool \<Rightarrow> string \<Rightarrow> string \<times> bool" where
  "format_scan used [] = ([], used)"
| "format_scan used [c] = ([c], used)"
| "format_scan used (c # d # rest) =
     (if c \<noteq> CHR ''%'' then
        (case format_scan used (d # rest) of (t, u) \<Rightarrow> (c # t, u))
      else if d = CHR ''%'' then
        (case format_scan used rest of (t, u) \<Rightarrow> (CHR ''%'' # t, u))
      else if used then
        (case format_scan used rest of (t, u) \<Rightarrow> (c # d # t, u))
      else
        (case directive_slash d of
           Some s \<Rightarrow> (case format_scan True rest of (t, u) \<Rightarrow> (s @ t, u))
         | None \<Rightarrow> (case format_scan False rest of (t, u) \<Rightarrow> (c # d # t, u))))"

text \<open>The line that \<open>console.log(first, "/")\<close> writes.\<close>

definition format_slash :: "string \<Rightarrow> string" where
  "format_slash first =
     (case format_scan False first of (t, used) \<Rightarrow> if used then t else t @ '' /'')"

definition console_log_slash :: "string \<Rightarrow> console \<Rightarrow> console" where
  "console_log_slash first out = out @ [format_slash first]"

text \<open>\<open>getSize\<close>: the loop of \<open>Folder.getSize\<close> carries \<open>total\<close>, starting from 0.\<close>

fun getSize :: "FileSystemItem \<Rightarrow> number"
  and getSize_loop :: "FileSystemItem list \<Rightarrow> number \<Rightarrow> number" where
  "getSize (Files name sz) = sz"
| "getSize (Folder name childs) = getSize_loop childs (Num 0)"
| "getSize_loop [] tot = tot"
| "getSize_loop (item # rest) tot = getSize_loop rest (js_add tot (getSize item))"

text \<open>
  \<open>printStructure(indent)\<close>: a file logs \<open>indent + name\<close>; a folder logs its name and
  \<open>"/"\<close>, then calls every child with \<open>indent + " "\<close>.
\<close>

fun printStructure :: "FileSystemItem \<Rightarrow> string \<Rightarrow> console \<Rightarrow> console"
  and printStructure_loop :: "FileSystemItem list \<Rightarrow> string \<Rightarrow> console \<Rightarrow> console" where
  "printStructure (Files name sz) indent out = console_log (indent @ name) out"
| "printStructure (Folder name childs) indent out =
     printStructure_loop childs indent (console_log_slash name out)"
| "printStructure_loop [] indent out = out"
| "printStructure_loop (item # rest) indent out =
     printStructure_loop rest indent (printStructure item (indent @ '' '') out)"

text \<open>
  \<open>delete()\<close>: a file logs its deletion; a folder calls \<open>delete\<close> on every child, then logs
  its own. The function returns the receiver as the call leaves it, next to the console:
  that is the object a later call meets.
\<close>

fun delete :: "FileSystemItem \<Rightarrow> console \<Rightarrow> FileSystemItem \<times> console"
  and delete_loop :: "FileSystemItem list \<Rightarrow> console \<Rightarrow> FileSystemItem list \<times> console" where
  "delete (Files name sz) out = (Files name sz, console_log2 ''Deleting File: '' name out)"
| "delete (Folder name childs) out =
     (case delete_loop childs out of
        (childs', out') \<Rightarrow> (Folder name childs', console_log2 ''Deleting folder: '' name out'))"
| "delete_loop [] out = ([], out)"
| "delete_loop (item # rest) out =
     (case delete item out of
        (item', out1) \<Rightarrow>
          (case delete_loop rest out1 of
             (rest', out2) \<Rightarrow> (item' # rest', out2)))"

text \<open>The tree of the expected output recorded in the source.\<close>

definition home_example :: FileSystemItem where
  "home_example =
     Folder ''Home''
       [Folder ''Documents'' [Files ''readme.txt'' (Num 5), Files ''data.csv'' (Num 300)],
        Folder ''Pictures'' [Files ''photo.jpg'' (Num 1500)]]"

subsection \<open>What the operations are expected to compute\<close>

text \<open>The sizes of the leaves below a node, left to right, and their sum.\<close>

fun leaf_sizes :: "FileSystemItem \<Rightarrow> number list" where
  "leaf_sizes (Files name sz) = [sz]"
| "leaf_sizes (Folder name childs) = concat (map leaf_sizes childs)"

fun finite_value :: "number \<Rightarrow> rat" where
  "finite_value (Num a) = a"
| "finite_value PosInfinity = 0"
| "finite_value NegInfinity = 0"
| "finite_value NaN = 0"

definition leaf_total :: "FileSystemItem \<Rightarrow> rat" where
  "leaf_total t = sum_list (map finite_value (leaf_sizes t))"

fun is_double :: "number \<Rightarrow> bool" where
  "is_double (Num a) = representable a"
| "is_double PosInfinity = False"
| "is_double NegInfinity = False"
| "is_double NaN = False"

text \<open>
  The additions of \<open>getSize\<close> are exact on a tree when every leaf size is a finite double
  and every sum that a loop of \<open>getSize\<close> forms, the total so far plus the size of the next
  child, is a double again, so that nothing is rounded.
\<close>

fun additions_exact :: "FileSystemItem \<Rightarrow> bool"
  and additions_exact_loop :: "FileSystemItem list \<Rightarrow> rat \<Rightarrow> bool" where
  "additions_exact (Files name sz) = is_double sz"
| "additions_exact (Folder name childs) = additions_exact_loop childs 0"
| "additions_exact_loop [] tot = True"
| "additions_exact_loop (item # rest) tot =
     (additions_exact item \<and> representable (tot + leaf_total item)
      \<and> additions_exact_loop rest (tot + leaf_total item))"

text \<open>Three files of sizes \<open>2^53\<close>, 1 and 1: in one folder, and with the last two in a subfolder.\<close>

definition flat_example :: FileSystemItem where
  "flat_example =
     Folder ''x'' [Files ''a'' (Num 9007199254740992), Files ''b'' (Num 1), Files ''c'' (Num 1)]"

definition nested_example :: FileSystemItem where
  "nested_example =
     Folder ''x'' [Files ''a'' (Num 9007199254740992),
                   Folder ''y'' [Files ''b'' (Num 1), Files ''c'' (Num 1)]]"






text \<open>The deletion reports of a tree in post-order: every subtree before its folder.\<close>

fun deletion_reports :: "FileSystemItem \<Rightarrow> string list" where
  "deletion_reports (Files name sz) = [''Deleting File:  '' @ name]"
| "deletion_reports (Folder name childs) =
     concat (map deletion_reports childs) @ [''Deleting folder:  '' @ name]"

fun node_count :: "FileSystemItem \<Rightarrow> nat" where
  "node_count (Files name sz) = 1"
| "node_count (Folder name childs) = Suc (sum_list (map node_count childs))"

subsection \<open>Objects in a store: \<open>addItem\<close>\<close>

text \<open>
  \<open>addItem\<close> receives a reference and pushes it onto the array of the folder, so one
  object can be pushed twice, and a folder onto itself. Objects are therefore kept in a
  store, a list indexed by reference; a folder holds the references of its children.
\<close>

datatype FileSystemObj =
  FilesObj string number
| FolderObj string "ref list"

type_synonym heap = "FileSystemObj list"

definition new_Files :: "string \<Rightarrow> number \<Rightarrow> heap \<Rightarrow> ref \<times> heap" where
  "new_Files name sz h = (length h, h @ [FilesObj name sz])"

definition new_Folder :: "string \<Rightarrow> heap \<Rightarrow> ref \<times> heap" where
  "new_Folder name h = (length h, h @ [FolderObj name []])"

text \<open>
  \<open>addItem\<close> is a method of \<open>Folder\<close>: the receiver is a folder of the store. On any
  other reference, which a typed program cannot produce, the model leaves the store alone.
\<close>

definition addItem :: "ref \<Rightarrow> ref \<Rightarrow> heap \<Rightarrow> heap" where
  "addItem this item h =
     (if this < length h
      then (case h ! this of
              FolderObj name cs \<Rightarrow> h[this := FolderObj name (cs @ [item])]
            | FilesObj name sz \<Rightarrow> h)
      else h)"

fun addItems :: "(ref \<times> ref) list \<Rightarrow> heap \<Rightarrow> heap" where
  "addItems [] h = h"
| "addItems ((this, item) # calls) h = addItems calls (addItem this item h)"

fun is_Folder :: "FileSystemObj \<Rightarrow> bool" where
  "is_Folder (FolderObj name cs) = True"
| "is_Folder (FilesObj name sz) = False"

fun childs_of :: "FileSystemObj \<Rightarrow> ref list" where
  "childs_of (FolderObj name cs) = cs"
| "childs_of (FilesObj name sz) = []"

definition folder_at :: "heap \<Rightarrow> ref \<Rightarrow> bool" where
  "folder_at h a = (a < length h \<and> is_Folder (h ! a))"

text \<open>Every child slot of the store, folder by folder.\<close>

definition all_childs :: "heap \<Rightarrow> ref list" where
  "all_childs h = concat (map childs_of h)"

text \<open>The parent-child relation of the store.\<close>

definition edges :: "heap \<Rightarrow> (ref \<times> ref) set" where
  "edges h = {(p, c). p < length h \<and> c \<in> set (childs_of (h ! p))}"

text \<open>
  The store is tree-shaped when no object fills two child slots (so it has at most one
  parent and occurs once there) and no object is its own descendant.
\<close>

definition tree_shaped :: "heap \<Rightarrow> bool" where
  "tree_shaped h = (distinct (all_childs h) \<and> acyclic (edges h))"

text \<open>
  The condition that the callers of \<open>addItem\<close> have to keep, since the method checks
  nothing: the item is not attached yet, and the receiver is neither the item nor below it.
\<close>

fun attaches_fresh :: "(ref \<times> ref) list \<Rightarrow> heap \<Rightarrow> bool" where
  "attaches_fresh [] h = True"
| "attaches_fresh ((this, item) # calls) h =
     (folder_at h this \<and> item \<notin> set (all_childs h) \<and> (item, this) \<notin> (edges h)\<^sup>*
      \<and> attaches_fresh calls (addItem this item h))"


text \<open>
  Four fresh objects, as the client code creates them: the folders \<open>Home\<close> (reference 0)
  and \<open>Documents\<close> (reference 1), the files \<open>readme.txt\<close> (reference 2) and \<open>data.csv\<close>
  (reference 3).
\<close>

definition store_example :: heap where
  "store_example =
     snd (new_Files ''data.csv'' (Num 300)
       (snd (new_Files ''readme.txt'' (Num 5)
         (snd (new_Folder ''Documents'' (snd (new_Folder ''Home'' [])))))))"


section \<open>Visitor: calculations over items\<close>

datatype Item =
  Book string number
| Clothes string number
| Electronics string number
| Stationary string number

fun item_price :: "Item \<Rightarrow> number" where
  "item_price (Book name p) = p"
| "item_price (Clothes name p) = p"
| "item_price (Electronics name p) = p"
| "item_price (Stationary name p) = p"

text \<open>The four entry points of the interface \<open>ApplyCalculation\<close>, and its three classes.\<close>

datatype entry_point = applyForBook | applyForCloth | applyForElectnics | applyForStationary

datatype ApplyCalculation = CalculatePrice | ApplyDiscount | ApplyGst

text \<open>
  What each method logs: its label and the amount. A decimal literal such as \<open>0.02\<close>
  denotes the double nearest to it.
\<close>

fun invoke :: "ApplyCalculation \<Rightarrow> entry_point \<Rightarrow> Item \<Rightarrow> string \<times> number" where
  "invoke CalculatePrice applyForBook item = (''Item price Rs. '', item_price item)"
| "invoke CalculatePrice applyForCloth item = (''Item price Rs. '', item_price item)"
| "invoke CalculatePrice applyForElectnics item = (''Item price Rs. '', item_price item)"
| "invoke CalculatePrice applyForStationary item = (''Item price Rs. '', item_price item)"
| "invoke ApplyDiscount applyForBook item = (''Item Discount Rs. '', js_mul (item_price item) (round_to_double (2 / 100)))"
| "invoke ApplyDiscount applyForCloth item = (''Item Discount Rs. '', js_mul (item_price item) (round_to_double (8 / 100)))"
| "invoke ApplyDiscount applyForElectnics item = (''Item Discount Rs. '', js_mul (item_price item) (round_to_double (12 / 100)))"
| "invoke ApplyDiscount applyForStationary item = (''Item Discount Rs. '', js_mul (item_price item) (round_to_double (11 / 100)))"
| "invoke ApplyGst applyForBook item = (''Item GST Rs. '', js_mul (item_price item) (round_to_double (5 / 100)))"
| "invoke ApplyGst applyForCloth item = (''Item GST Rs. '', js_mul (item_price item) (round_to_double (12 / 100)))"
| "invoke ApplyGst applyForElectnics item = (''Item GST Rs. '', js_mul (item_price item) (round_to_double (18 / 100)))"
| "invoke ApplyGst applyForStationary item = (''Item GST Rs. '', js_mul (item_price item) (round_to_double (9 / 100)))"

text \<open>The method that \<open>accept\<close> of each class calls on the visitor.\<close>

fun accept_method :: "Item \<Rightarrow> entry_point" where
  "accept_method (Book name p) = applyForBook"
| "accept_method (Clothes name p) = applyForCloth"
| "accept_method (Electronics name p) = applyForElectnics"
| "accept_method (Stationary name p) = applyForElectnics"

text \<open>\<open>accept(visitor)\<close>: the method called, and what it logs.\<close>

definition accept :: "Item \<Rightarrow> ApplyCalculation \<Rightarrow> entry_point \<times> string \<times> number" where
  "accept item visitor = (accept_method item, invoke visitor (accept_method item) item)"

text \<open>The method that the interface reserves for each class.\<close>

fun reserved_method :: "Item \<Rightarrow> entry_point" where
  "reserved_method (Book name p) = applyForBook"
| "reserved_method (Clothes name p) = applyForCloth"
| "reserved_method (Electronics name p) = applyForElectnics"
| "reserved_method (Stationary name p) = applyForStationary"


section \<open>Evaluating the arithmetic of doubles\<close>

lemma floor_rat_numeral:
  "\<lfloor>(numeral a :: rat) / numeral b\<rfloor> = numeral a div numeral b"
  "\<lfloor>- (numeral a :: rat) / numeral b\<rfloor> = - numeral a div numeral b"
  "\<lfloor>- ((numeral a :: rat) / numeral b)\<rfloor> = - numeral a div numeral b"
  using floor_divide_of_int_eq [of "numeral a" "numeral b", where ?'a = rat]
    floor_divide_of_int_eq [of "- numeral a" "numeral b", where ?'a = rat]
  by simp_all

lemma ceiling_rat_numeral:
  "\<lceil>(numeral a :: rat) / numeral b\<rceil> = - (- numeral a div numeral b)"
proof -
  have "- ((numeral a :: rat) / numeral b) = - numeral a / numeral b"
    by simp
  then show ?thesis
    unfolding ceiling_def by (simp only: floor_rat_numeral)
qed

lemmas double_eval =
  round_to_double_def binary_exponent_def scale2_def round_half_even_def Let_def
  floor_rat_numeral ceiling_rat_numeral representable_def js_sub_def

text \<open>Some doubles of the program and of the examples.\<close>

lemma double_tenth: "round_to_double (1 / 10) = Num (3602879701896397 / 36028797018963968)"
  by (simp add: double_eval)

lemma double_fifth: "round_to_double (2 / 10) = Num (3602879701896397 / 18014398509481984)"
  by (simp add: double_eval)

lemma rounded_above_2_53: "round_to_double (1 + 9007199254740992) = Num 9007199254740992"
  by (simp add: double_eval)

text \<open>
  Sums and products as the program computes them: \<open>0.1 + 0.2\<close> is 0.30000000000000004,
  \<open>10 * 0.18\<close> is 1.7999999999999998, \<open>1e308 + 1e308\<close> is \<open>Infinity\<close>, and a tie goes to the
  even neighbour.
\<close>

lemma known_doubles:
  "js_add (round_to_double (1 / 10)) (round_to_double (2 / 10))
     = Num (1351079888211149 / 4503599627370496)"
  "js_mul (Num 10) (round_to_double (18 / 100)) = Num (2026619832316723 / 1125899906842624)"
  "js_add (round_to_double (10 ^ 308)) (round_to_double (10 ^ 308)) = PosInfinity"
  "js_add (Num 9007199254740992) (Num 3) = Num 9007199254740996"
  "js_sub (Num 0) (Num 20) = Num (- 20)"
  by (simp_all add: double_eval)

lemma known_sizes:
  "getSize (Folder ''x'' [Files ''a'' (round_to_double (1 / 10)),
      Files ''b'' (round_to_double (2 / 10)), Files ''c'' (round_to_double (3 / 10))])
     = Num (1351079888211149 / 2251799813685248)"
  "getSize (Folder ''x'' [Files ''a'' (round_to_double (1 / 10)),
      Folder ''y'' [Files ''b'' (round_to_double (2 / 10)),
                    Files ''c'' (round_to_double (3 / 10))]])
     = Num (5404319552844595 / 9007199254740992)"
  by (simp_all add: double_eval)


section \<open>Properties of the command log\<close>

lemma pop_snoc: "pop (xs @ [x]) = (Some x, xs)"
  by (cases xs) simp_all

text \<open>
  Claim C10. For every name and every price, a freshly constructed inventory has stock 0:
  the second parameter of the constructor is the price, not a stock. In particular
  \<open>new Inventory("ABC", 12)\<close> has stock 0.
\<close>

theorem Inventory_new_stock_zero:
  "currentStock (Inventory_new name p) = Num 0
   \<and> productName (Inventory_new name p) = name
   \<and> price (Inventory_new name p) = p
   \<and> currentStock (Inventory_new ''ABC'' (Num 12)) \<noteq> Num 12"
  by (simp add: Inventory_new_def)

text \<open>
  Claim C3, as stated: for any stock and every quantity, \<open>execute\<close> followed by \<open>undo\<close>
  restores the stock exactly. The sum is rounded: with stock 1, adding \<open>2^53\<close> gives
  \<open>2^53\<close>, and the undo leaves 0; with stock 0.1, adding 0.2 and undoing leaves
  0.10000000000000003.
\<close>

theorem execute_undo_rounded_counterexample:
  "currentStock (stock1 0) = Num 1
   \<and> currentStock
        (undo (AddInventory 0 (Num 9007199254740992))
           (execute (AddInventory 0 (Num 9007199254740992)) stock1) 0) = Num 0
   \<and> currentStock (stock_tenth 0) = Num (3602879701896397 / 36028797018963968)
   \<and> currentStock
        (undo (AddInventory 0 (round_to_double (2 / 10)))
           (execute (AddInventory 0 (round_to_double (2 / 10))) stock_tenth) 0)
       = Num (1801439850948199 / 18014398509481984)"
  by (simp add: stock1_def stock_tenth_def addInventory_def removeInventory_def double_eval)

text \<open>
  Claim C3, amended. For every store, every inventory whose stock is a finite double and
  every finite quantity: when the sum of stock and quantity is a double, so that the
  addition is exact, executing \<open>AddInventory\<close> sets the stock to that sum and undoing it
  restores the stock to the value before \<open>execute\<close>; when their difference is a double,
  the same holds of \<open>RemoveInventory\<close>. Nothing else in the store differs either.
\<close>

theorem execute_undo_inverse_exact:
  assumes "currentStock (s r) = Num a" and "representable a"
  shows "(representable (a + q) \<longrightarrow>
            currentStock (execute (AddInventory r (Num q)) s r) = Num (a + q)
            \<and> currentStock
                (undo (AddInventory r (Num q)) (execute (AddInventory r (Num q)) s) r)
              = currentStock (s r)
            \<and> undo (AddInventory r (Num q)) (execute (AddInventory r (Num q)) s) = s)
         \<and> (representable (a - q) \<longrightarrow>
            currentStock (execute (RemoveInventory r (Num q)) s r) = Num (a - q)
            \<and> currentStock
                (undo (RemoveInventory r (Num q)) (execute (RemoveInventory r (Num q)) s) r)
              = currentStock (s r)
            \<and> undo (RemoveInventory r (Num q)) (execute (RemoveInventory r (Num q)) s) = s)"
proof -
  have same: "(s r)\<lparr>currentStock := Num a\<rparr> = s r"
    using assms(1) by simp
  have "undo (AddInventory r (Num q)) (execute (AddInventory r (Num q)) s) = s"
    if "representable (a + q)"
  proof -
    have "round_to_double (a + q) = Num (a + q)" "round_to_double a = Num a"
      using that assms(2) by (simp_all add: representable_def)
    then show ?thesis
      using assms(1) same
      by (simp add: addInventory_def removeInventory_def js_sub_def fun_eq_iff)
  qed
  moreover have "undo (RemoveInventory r (Num q)) (execute (RemoveInventory r (Num q)) s) = s"
    if "representable (a - q)"
  proof -
    have "round_to_double (a - q) = Num (a - q)" "round_to_double a = Num a"
      using that assms(2) by (simp_all add: representable_def)
    then show ?thesis
      using assms(1) same
      by (simp add: addInventory_def removeInventory_def js_sub_def fun_eq_iff)
  qed
  moreover have "currentStock (execute (AddInventory r (Num q)) s r) = Num (a + q)"
    if "representable (a + q)"
    using that assms(1) by (simp add: addInventory_def representable_def)
  moreover have "currentStock (execute (RemoveInventory r (Num q)) s r) = Num (a - q)"
    if "representable (a - q)"
    using that assms(1) by (simp add: removeInventory_def js_sub_def representable_def)
  ultimately show ?thesis by simp
qed

theorem execute_undo_inverse_exact_witness:
  "currentStock (inventories stock12 0) = Num 12 \<and> representable 12
   \<and> representable (12 + 100) \<and> representable (12 - 100)
   \<and> currentStock (execute (AddInventory 0 (Num 100)) (inventories stock12) 0) = Num 112
   \<and> undo (AddInventory 0 (Num 100)) (execute (AddInventory 0 (Num 100)) (inventories stock12))
       = inventories stock12
   \<and> undo (RemoveInventory 0 (Num 100))
        (execute (RemoveInventory 0 (Num 100)) (inventories stock12))
       = inventories stock12"
proof -
  have stock: "currentStock (inventories stock12 0) = Num 12"
    by (simp add: stock12_def)
  have doubles: "representable 12" "representable (12 + 100)" "representable (12 - 100)"
    by (simp_all add: double_eval)
  show ?thesis
    using execute_undo_inverse_exact [of "inventories stock12" 0 12 100] stock doubles
    by simp
qed

lemma undoWithLogging_snoc:
  "undoWithLogging \<lparr>inventories = s, operations = ops @ [a]\<rparr>
     = \<lparr>inventories = undo a s, operations = ops\<rparr>"
  by (simp add: undoWithLogging_def pop_snoc Let_def)

lemma undoTimes_reverse_order:
  "undoTimes (length bs) \<lparr>inventories = s, operations = ops @ bs\<rparr>
     = \<lparr>inventories = fold undo (rev bs) s, operations = ops\<rparr>"
proof (induction bs arbitrary: s rule: rev_induct)
  case Nil
  show ?case by simp
next
  case (snoc b bs)
  have "undoWithLogging \<lparr>inventories = s, operations = (ops @ bs) @ [b]\<rparr>
          = \<lparr>inventories = undo b s, operations = ops @ bs\<rparr>"
    by (rule undoWithLogging_snoc)
  then show ?case
    by (simp add: snoc.IH)
qed

lemma stock12_script:
  "currentStock (inventories
      (executeAll [AddInventory 0 (Num 100), RemoveInventory 0 (Num 20)] stock12) 0) = Num 92
   \<and> currentStock (inventories (undoTimes 1
      (executeAll [AddInventory 0 (Num 100), RemoveInventory 0 (Num 20)] stock12)) 0) = Num 112
   \<and> currentStock (inventories (undoTimes 2
      (executeAll [AddInventory 0 (Num 100), RemoveInventory 0 (Num 20)] stock12)) 0) = Num 12"
  by (simp add: stock12_def executeWithLogging_def undoWithLogging_def addInventory_def
      removeInventory_def numeral_2_eq_2 double_eval)

text \<open>
  Claim C4. The log executes, then records, and undoes last-in first-out:
  \<open>executeWithLogging\<close> applies the effect of the action to its inventory and appends the
  action at the end of the log; \<open>undoWithLogging\<close> removes the action appended last and
  applies its \<open>undo\<close>; so undoing as many times as actions were recorded applies their
  \<open>undo\<close>s in the reverse order of recording. Starting with stock 12, recording
  \<open>Add(100)\<close> and \<open>Remove(20)\<close> yields 92, one undo yields 112, a second one 12.
\<close>

theorem executeWithLogging_lifo_undo:
  "executeWithLogging a w
     = \<lparr>inventories = execute a (inventories w), operations = operations w @ [a]\<rparr>
   \<and> undoWithLogging \<lparr>inventories = s, operations = ops @ [a]\<rparr>
     = \<lparr>inventories = undo a s, operations = ops\<rparr>
   \<and> undoTimes (length bs) \<lparr>inventories = s, operations = ops @ bs\<rparr>
     = \<lparr>inventories = fold undo (rev bs) s, operations = ops\<rparr>
   \<and> currentStock (inventories
        (executeAll [AddInventory 0 (Num 100), RemoveInventory 0 (Num 20)] stock12) 0) = Num 92
   \<and> currentStock (inventories (undoTimes 1
        (executeAll [AddInventory 0 (Num 100), RemoveInventory 0 (Num 20)] stock12)) 0)
       = Num 112
   \<and> currentStock (inventories (undoTimes 2
        (executeAll [AddInventory 0 (Num 100), RemoveInventory 0 (Num 20)] stock12)) 0)
       = Num 12"
proof -
  have "executeWithLogging a w
     = \<lparr>inventories = execute a (inventories w), operations = operations w @ [a]\<rparr>"
    by (simp add: executeWithLogging_def Let_def)
  then show ?thesis
    using undoWithLogging_snoc [of s ops a] undoTimes_reverse_order [of bs s ops]
      stock12_script
    by simp
qed

text \<open>
  Claim C7. \<open>undoWithLogging\<close> on an empty log is a no-op: the model has no error branch
  (the source neither throws nor indexes), the log stays empty and no inventory changes.
  On a non-empty log it removes exactly the action appended last and applies its \<open>undo\<close>.
\<close>

theorem undoWithLogging_empty_noop:
  "(operations w = [] \<longrightarrow> undoWithLogging w = w)
   \<and> (operations w \<noteq> [] \<longrightarrow>
        undoWithLogging w
          = \<lparr>inventories = undo (last (operations w)) (inventories w),
             operations = butlast (operations w)\<rparr>)"
  by (cases "operations w") (simp_all add: undoWithLogging_def Let_def)

theorem undoWithLogging_empty_noop_witness:
  "operations stock12 = [] \<and> undoWithLogging stock12 = stock12
   \<and> operations (executeWithLogging (RemoveInventory 0 (Num 20)) stock12) \<noteq> []
   \<and> undoWithLogging (executeWithLogging (RemoveInventory 0 (Num 20)) stock12)
       = \<lparr>inventories = undo (RemoveInventory 0 (Num 20))
            (inventories (executeWithLogging (RemoveInventory 0 (Num 20)) stock12)),
          operations = []\<rparr>"
  using undoWithLogging_empty_noop [of stock12]
    undoWithLogging_empty_noop [of "executeWithLogging (RemoveInventory 0 (Num 20)) stock12"]
  by (simp add: stock12_def executeWithLogging_def)


section \<open>Properties of the composite tree\<close>

subsection \<open>The loops, in terms of the children\<close>

lemma getSize_loop_foldl: "getSize_loop cs tot = foldl js_add tot (map getSize cs)"
  by (induction cs arbitrary: tot) simp_all

lemma leaf_total_Folder: "leaf_total (Folder name cs) = sum_list (map leaf_total cs)"
  by (induction cs) (simp_all add: leaf_total_def)

lemma getSize_exact:
  "additions_exact t \<longrightarrow> getSize t = Num (leaf_total t)"
  "additions_exact_loop cs tot \<longrightarrow>
     getSize_loop cs (Num tot) = Num (tot + sum_list (map leaf_total cs))"
proof (induction t and cs tot rule: additions_exact_additions_exact_loop.induct)
  case (1 name sz)
  show ?case by (cases sz) (simp_all add: leaf_total_def)
next
  case (2 name childs)
  then show ?case by (simp add: leaf_total_Folder)
next
  case (3 tot)
  show ?case by simp
next
  case (4 item rest tot)
  then show ?case
    by (simp add: representable_def add.assoc)
qed












lemma delete_loop_concat:
  assumes "\<And>c out. c \<in> set cs \<Longrightarrow> delete c out = (c, out @ f c)"
  shows "delete_loop cs out = (cs, out @ concat (map f cs))"
  using assms by (induction cs arbitrary: out) simp_all

lemma delete_result: "delete t out = (t, out @ deletion_reports t)"
proof (induction t arbitrary: out)
  case (Files name sz)
  show ?case by (simp add: console_log2_def)
next
  case (Folder name cs)
  have "delete_loop cs out = (cs, out @ concat (map deletion_reports cs))"
    by (rule delete_loop_concat) (rule Folder.IH)
  then show ?case
    by (simp add: console_log2_def)
qed

lemma length_deletion_reports: "length (deletion_reports t) = node_count t"
  by (induction t) (simp_all add: length_concat comp_def cong: map_cong)


lemma home_example_printed:
  "printStructure home_example [] []
     = [''Home /'', ''Documents /'', ''  readme.txt'', ''  data.csv'',
        ''Pictures /'', ''  photo.jpg'']"
  by (simp add: home_example_def console_log_def console_log_slash_def format_slash_def)

lemma home_example_size: "getSize home_example = Num 1805"
  by (simp add: home_example_def double_eval)

subsection \<open>Sizes\<close>

text \<open>
  Claim C2, as stated: for every tree, \<open>getSize\<close> of a node is the sum of the sizes of
  the leaves below it. The loop adds doubles and rounds each sum: three files of sizes
  \<open>2^53\<close>, 1 and 1 in one folder give \<open>2^53\<close>, where the sum of the sizes is \<open>2^53 + 2\<close>; with
  the last two files in a subfolder, the same leaves give \<open>2^53 + 2\<close>.
\<close>

theorem getSize_rounded_counterexample:
  "getSize flat_example = Num 9007199254740992
   \<and> leaf_total flat_example = 9007199254740994
   \<and> getSize flat_example \<noteq> Num (leaf_total flat_example)
   \<and> leaf_sizes nested_example = leaf_sizes flat_example
   \<and> getSize nested_example = Num 9007199254740994"
  by (simp add: flat_example_def nested_example_def leaf_total_def double_eval)

text \<open>
  Claim C2, amended. For every tree of files and folders, nested to any depth, whose leaf
  sizes are finite and on which every addition of \<open>getSize\<close> is exact (each sum formed is
  itself a double, so nothing is rounded), \<open>getSize\<close> of a node is the sum of the sizes of
  the leaves below it. On every tree, a file returns its own size and a folder the sum,
  added in doubles from 0 and from left to right, of \<open>getSize\<close> over its children;
  \<open>getSize\<close> reads nothing but the tree (the classes have no field that could cache a
  size), so every call computes the sum anew.
\<close>

theorem getSize_sum_of_leaves_exact:
  "(additions_exact t \<longrightarrow> getSize t = Num (leaf_total t))
   \<and> getSize (Files name sz) = sz
   \<and> getSize (Folder name cs) = foldl js_add (Num 0) (map getSize cs)
   \<and> getSize home_example = Num 1805"
  using getSize_exact(1) [of t] home_example_size
  by (simp add: getSize_loop_foldl)

theorem getSize_sum_of_leaves_exact_witness:
  "additions_exact home_example
   \<and> leaf_total home_example = 1805
   \<and> getSize home_example = Num (leaf_total home_example)"
proof -
  have exact: "additions_exact home_example"
    by (simp add: home_example_def leaf_total_def double_eval)
  have "leaf_total home_example = 1805"
    by (simp add: home_example_def leaf_total_def)
  then show ?thesis
    using exact getSize_sum_of_leaves_exact [of home_example] by simp
qed

subsection \<open>Printing\<close>




subsection \<open>Deleting\<close>




text \<open>
  Claim C5, as stated: \<open>delete()\<close> removes the node and all its descendants and is
  terminal, so that a traversal after \<open>delete()\<close> on the root visits no node. The methods
  only log: after \<open>delete()\<close> on the root of the example, the root is the tree it was,
  \<open>printStructure\<close> still writes its six lines and \<open>getSize\<close> still returns 1805.
\<close>

theorem delete_removes_nothing_counterexample:
  "fst (delete home_example []) = home_example
   \<and> printStructure (fst (delete home_example [])) [] []
       = [''Home /'', ''Documents /'', ''  readme.txt'', ''  data.csv'',
          ''Pictures /'', ''  photo.jpg'']
   \<and> length (printStructure (fst (delete home_example [])) [] []) \<noteq> 0
   \<and> getSize (fst (delete home_example [])) = Num 1805"
  by (simp add: delete_result home_example_printed home_example_size)

text \<open>
  Claim C5, amended. \<open>delete()\<close> on any node reports the deletion of the node and of
  every descendant, one line per node and every subtree before its folder, and changes no
  object: the node and its subtree are after the call what they were before it, and
  \<open>printStructure\<close> and \<open>getSize\<close> on the node give what they gave before.
\<close>

theorem delete_reports_only:
  "fst (delete t out) = t
   \<and> snd (delete t out) = out @ deletion_reports t
   \<and> length (snd (delete t out)) = length out + node_count t
   \<and> printStructure (fst (delete t out)) indent out' = printStructure t indent out'
   \<and> getSize (fst (delete t out)) = getSize t"
  by (simp add: delete_result length_deletion_reports)


section \<open>Properties of \<open>addItem\<close>\<close>

text \<open>\<open>addItem\<close> appends to the array of the folder and leaves every other object alone.\<close>

lemma addItem_appends:
  "this < length h \<Longrightarrow> h ! this = FolderObj name cs \<Longrightarrow>
   addItem this item h = h[this := FolderObj name (cs @ [item])]"
  by (simp add: addItem_def)

lemma all_childs_addItem:
  assumes "folder_at h f"
  shows "\<exists>xs ys. all_childs h = xs @ ys \<and> all_childs (addItem f i h) = xs @ [i] @ ys"
proof -
  from assms have lt: "f < length h" and fo: "is_Folder (h ! f)"
    by (simp_all add: folder_at_def)
  from fo obtain name cs where obj: "h ! f = FolderObj name cs"
    by (cases "h ! f") simp_all
  have split: "h = take f h @ FolderObj name cs # drop (Suc f) h"
    using id_take_nth_drop [OF lt] unfolding obj .
  have upd: "addItem f i h = take f h @ FolderObj name (cs @ [i]) # drop (Suc f) h"
    using lt obj by (simp add: addItem_def upd_conv_take_nth_drop)
  have "all_childs h
      = (concat (map childs_of (take f h)) @ cs) @ concat (map childs_of (drop (Suc f) h))"
    by (subst split) (simp add: all_childs_def)
  moreover have "all_childs (addItem f i h)
      = (concat (map childs_of (take f h)) @ cs) @ [i]
          @ concat (map childs_of (drop (Suc f) h))"
    by (simp add: upd all_childs_def)
  ultimately show ?thesis by blast
qed

lemma distinct_addItem:
  assumes "folder_at h f"
  shows "distinct (all_childs (addItem f i h))
         \<longleftrightarrow> distinct (all_childs h) \<and> i \<notin> set (all_childs h)"
proof -
  from all_childs_addItem [OF assms, of i] obtain xs ys
    where "all_childs h = xs @ ys" "all_childs (addItem f i h) = xs @ [i] @ ys"
    by blast
  then show ?thesis by auto
qed

lemma edges_addItem:
  assumes "folder_at h f"
  shows "edges (addItem f i h) = insert (f, i) (edges h)"
proof -
  from assms have lt: "f < length h" and fo: "is_Folder (h ! f)"
    by (simp_all add: folder_at_def)
  from fo obtain name cs where obj: "h ! f = FolderObj name cs"
    by (cases "h ! f") simp_all
  have upd: "addItem f i h = h[f := FolderObj name (cs @ [i])]"
    using lt obj by (simp add: addItem_def)
  show ?thesis
    using lt obj by (auto simp: edges_def upd nth_list_update split: if_splits)
qed

text \<open>One call keeps the store tree-shaped exactly when its item is fresh for the folder.\<close>

lemma tree_shaped_addItem:
  assumes "folder_at h f"
  shows "tree_shaped (addItem f i h) \<longleftrightarrow>
         tree_shaped h \<and> i \<notin> set (all_childs h) \<and> (i, f) \<notin> (edges h)\<^sup>*"
  using assms by (auto simp: tree_shaped_def distinct_addItem edges_addItem)

lemma tree_shaped_preserved:
  "tree_shaped h \<Longrightarrow> attaches_fresh calls h \<Longrightarrow> tree_shaped (addItems calls h)"
proof (induction calls h rule: addItems.induct)
  case (1 h)
  then show ?case by simp
next
  case (2 this item calls h)
  then show ?case by (simp add: tree_shaped_addItem)
qed

text \<open>The edges of a concrete store, as a list.\<close>

lemma edges_list:
  "edges h = set (concat (map (\<lambda>p. map (Pair p) (childs_of (h ! p))) [0..<length h]))"
  by (auto simp: edges_def)

lemma store_example_eq:
  "store_example
     = [FolderObj ''Home'' [], FolderObj ''Documents'' [], FilesObj ''readme.txt'' (Num 5),
        FilesObj ''data.csv'' (Num 300)]"
  by (simp add: store_example_def new_Files_def new_Folder_def)

text \<open>
  Claim C9, as stated: whatever the calls of \<open>addItem\<close>, the structure is a tree.
  \<open>addItem\<close> pushes any reference it is given. A folder added to itself is its own child;
  one file added to two folders fills a child slot in each.
\<close>

theorem addItem_unchecked_counterexample:
  "addItems [(0, 0)] [FolderObj ''Home'' []] = [FolderObj ''Home'' [0]]
   \<and> (0, 0) \<in> (edges (addItems [(0, 0)] [FolderObj ''Home'' []]))\<^sup>+
   \<and> \<not> tree_shaped (addItems [(0, 0)] [FolderObj ''Home'' []])
   \<and> addItems [(0, 2), (1, 2)]
        [FolderObj ''Documents'' [], FolderObj ''Pictures'' [],
         FilesObj ''photo.jpg'' (Num 1500)]
       = [FolderObj ''Documents'' [2], FolderObj ''Pictures'' [2],
          FilesObj ''photo.jpg'' (Num 1500)]
   \<and> \<not> tree_shaped (addItems [(0, 2), (1, 2)]
        [FolderObj ''Documents'' [], FolderObj ''Pictures'' [],
         FilesObj ''photo.jpg'' (Num 1500)])"
  by (simp add: addItem_def edges_list tree_shaped_def all_childs_def)

text \<open>
  Claim C9, amended. \<open>addItem\<close> appends the reference it is given at the end of the child
  list of the folder, changes no other object, and checks nothing. The structure stays a
  tree under every sequence of calls in which each call adds, to a folder, an item that is
  attached nowhere yet and is neither that folder nor one of its ancestors: then every
  item has at most one parent and no node is its own descendant.
\<close>

theorem tree_shaped_addItems:
  "(this < length h \<and> h ! this = FolderObj name cs \<longrightarrow>
      addItem this item h = h[this := FolderObj name (cs @ [item])])
   \<and> (tree_shaped h \<and> attaches_fresh calls h \<longrightarrow> tree_shaped (addItems calls h))"
  using addItem_appends [of this h name cs item] tree_shaped_preserved [of h calls]
  by simp

theorem tree_shaped_addItems_witness:
  "1 < length (addItem 1 2 store_example)
   \<and> addItem 1 2 store_example ! 1 = FolderObj ''Documents'' [2]
   \<and> addItem 1 3 (addItem 1 2 store_example)
       = (addItem 1 2 store_example)[1 := FolderObj ''Documents'' ([2] @ [3])]
   \<and> tree_shaped store_example
   \<and> attaches_fresh [(1, 2), (1, 3), (0, 1)] store_example
   \<and> addItems [(1, 2), (1, 3), (0, 1)] store_example
       = [FolderObj ''Home'' [1], FolderObj ''Documents'' [2, 3],
          FilesObj ''readme.txt'' (Num 5), FilesObj ''data.csv'' (Num 300)]
   \<and> tree_shaped (addItems [(1, 2), (1, 3), (0, 1)] store_example)"
proof -
  have shaped: "tree_shaped store_example"
    by (simp add: store_example_eq tree_shaped_def all_childs_def edges_list upt_rec
        acyclic_def)
  have fresh: "attaches_fresh [(1, 2), (1, 3), (0, 1)] store_example"
    by (simp add: store_example_eq folder_at_def all_childs_def edges_list upt_rec
        addItem_def rtrancl_insert)
  have once: "addItem 1 2 store_example
       = [FolderObj ''Home'' [], FolderObj ''Documents'' [2],
          FilesObj ''readme.txt'' (Num 5), FilesObj ''data.csv'' (Num 300)]"
    by (simp add: store_example_eq addItem_def)
  have built: "addItems [(1, 2), (1, 3), (0, 1)] store_example
       = [FolderObj ''Home'' [1], FolderObj ''Documents'' [2, 3],
          FilesObj ''readme.txt'' (Num 5), FilesObj ''data.csv'' (Num 300)]"
    by (simp add: store_example_eq addItem_def)
  have folder: "1 < length (addItem 1 2 store_example)
       \<and> addItem 1 2 store_example ! 1 = FolderObj ''Documents'' [2]"
    by (simp only: once) simp
  have appended: "addItem 1 3 (addItem 1 2 store_example)
       = (addItem 1 2 store_example)[1 := FolderObj ''Documents'' ([2] @ [3])]"
    using folder
      tree_shaped_addItems
        [where this = 1 and h = "addItem 1 2 store_example" and name = "''Documents''"
           and cs = "[2]" and item = 3]
    by blast
  have "tree_shaped (addItems [(1, 2), (1, 3), (0, 1)] store_example)"
    using shaped fresh
      tree_shaped_addItems [where h = store_example and calls = "[(1, 2), (1, 3), (0, 1)]"]
    by blast
  with folder appended shaped fresh built show ?thesis
    by blast
qed


section \<open>Properties of the visitor\<close>

text \<open>Books, clothes and electronics reach their own method, at the rate of their class.\<close>

lemma accept_own_method:
  "accept (Book name p) ApplyDiscount
     = (applyForBook, ''Item Discount Rs. '', js_mul p (round_to_double (2 / 100)))
   \<and> accept (Clothes name p) ApplyDiscount
       = (applyForCloth, ''Item Discount Rs. '', js_mul p (round_to_double (8 / 100)))
   \<and> accept (Electronics name p) ApplyDiscount
       = (applyForElectnics, ''Item Discount Rs. '', js_mul p (round_to_double (12 / 100)))
   \<and> accept (Book name p) ApplyGst
       = (applyForBook, ''Item GST Rs. '', js_mul p (round_to_double (5 / 100)))
   \<and> accept (Clothes name p) ApplyGst
       = (applyForCloth, ''Item GST Rs. '', js_mul p (round_to_double (12 / 100)))
   \<and> accept (Electronics name p) ApplyGst
       = (applyForElectnics, ''Item GST Rs. '', js_mul p (round_to_double (18 / 100)))
   \<and> accept (Book name p) CalculatePrice = (applyForBook, ''Item price Rs. '', p)
   \<and> accept (Clothes name p) CalculatePrice = (applyForCloth, ''Item price Rs. '', p)
   \<and> accept (Electronics name p) CalculatePrice = (applyForElectnics, ''Item price Rs. '', p)"
  by (simp add: accept_def)

text \<open>
  Claim C1. Every class of item is to reach the visitor method reserved for it, and
  stationary is to be discounted at 11% and taxed at 9%. \<open>Stationary.accept\<close> calls
  \<open>applyForElectnics\<close>, the method of electronics: a stationary item priced 100 is
  discounted by 12 and taxed by 18, where \<open>applyForStationary\<close>, which no class calls,
  gives 11 and 9.
\<close>

theorem Stationary_accept_calls_applyForElectnics:
  "accept (Stationary ''Pen'' (Num 100)) ApplyDiscount
     = (applyForElectnics, ''Item Discount Rs. '', Num 12)
   \<and> invoke ApplyDiscount (reserved_method (Stationary ''Pen'' (Num 100)))
        (Stationary ''Pen'' (Num 100))
     = (''Item Discount Rs. '', Num 11)
   \<and> accept (Stationary ''Pen'' (Num 100)) ApplyGst
     = (applyForElectnics, ''Item GST Rs. '', Num 18)
   \<and> invoke ApplyGst (reserved_method (Stationary ''Pen'' (Num 100)))
        (Stationary ''Pen'' (Num 100))
     = (''Item GST Rs. '', Num 9)
   \<and> accept_method (Stationary ''Pen'' (Num 100))
     = accept_method (Electronics ''Phone'' (Num 200))
   \<and> accept_method (Stationary ''Pen'' (Num 100))
     \<noteq> reserved_method (Stationary ''Pen'' (Num 100))"
  by (simp add: accept_def double_eval)

end
